theory Spec2Isabelle
  imports Complex_Main "HOL-Library.Word" "HOL-Library.Log_Nat"
begin

unbundle bit_operations_syntax

section \<open>The FluidSynth MIDI handler of dosbox-staging (src/midi/midi_fluidsynth.cpp)\<close>

text \<open>
  The handler is a C++ object with six members that the functions of this file read and
  write: three owning pointers (\<open>settings\<close>, \<open>synth\<close>, \<open>channel\<close>), the flag
  \<open>is_open\<close> and two stereo volumes. Everything else it touches belongs to its
  collaborators: the FluidSynth library, the DOSBox mixer, the configuration, the log and
  the soft limiter. The model keeps the members in a record and the collaborators in a
  trace of the calls made to them, in program order, each call with its arguments and
  with the value it returned. What a collaborator returns is decided by an environment
  \<open>env\<close>, a function of the calls made so far and of the arguments.
\<close>

subsection \<open>float and double: IEEE 754 binary32 and binary64\<close>

text \<open>
  The volumes are C++ \<open>float\<close>s and the gain is a \<open>double\<close>. A value of either type
  is a NaN, an infinity with its sign, or a finite number with its sign and its
  magnitude (so both zeros exist); the sign is \<open>True\<close> for negative. Arithmetic rounds
  the exact result to the nearest value of the format, ties to even, and overflows to
  infinity; a finite dividend over zero is an infinity, and zero over zero is NaN.
  This is the arithmetic of a compiler that follows IEEE 754 (Annex F of the C standard)
  and evaluates \<open>float\<close> expressions in \<open>float\<close>.
\<close>

datatype fp = NaN | Infty bool | Num bool rat

record format =
  prec :: nat
  emin :: int
  emax :: int

definition binary32 :: format where
  "binary32 = \<lparr>prec = 24, emin = - 126, emax = 127\<rparr>"

definition binary64 :: format where
  "binary64 = \<lparr>prec = 53, emin = - 1022, emax = 1023\<rparr>"

definition pow2 :: "int \<Rightarrow> rat" where
  "pow2 k = (if 0 \<le> k then 2 ^ nat k else 1 / 2 ^ nat (- k))"

text \<open>\<open>ilog2 m\<close> is the exponent \<open>e\<close> with \<open>2^e \<le> m < 2^(e+1)\<close>, for \<open>m > 0\<close>.\<close>

definition ilog2 :: "rat \<Rightarrow> int" where
  "ilog2 m = (case quotient_of m of (n, d) \<Rightarrow>
     (let k = bitlen n - bitlen d
      in if pow2 k \<le> m then k else k - 1))"

text \<open>Rounding to the nearest integer, a tie to the even one.\<close>

definition rne :: "rat \<Rightarrow> int" where
  "rne x = (let f = \<lfloor>x\<rfloor>; d = x - of_int f
     in if d < 1 / 2 then f else if 1 / 2 < d then f + 1
        else if even f then f else f + 1)"

text \<open>
  \<open>round_mag f s m\<close> rounds the exact magnitude \<open>m\<close> with sign \<open>s\<close> into the format:
  the spacing of the format's values around \<open>m\<close> is \<open>ulp\<close> (that of the subnormals below
  \<open>2^emin\<close>), and a result of \<open>2^(emax+1)\<close> or more is an infinity.
\<close>

definition round_mag :: "format \<Rightarrow> bool \<Rightarrow> rat \<Rightarrow> fp" where
  "round_mag f s m =
     (if m = 0 then Num s 0
      else let e = max (ilog2 m) (emin f);
               ulp = pow2 (e - (int (prec f) - 1));
               r = of_int (rne (m / ulp)) * ulp
           in if pow2 (emax f + 1) \<le> r then Infty s else Num s r)"

definition signed :: "bool \<Rightarrow> rat \<Rightarrow> rat" where
  "signed s m = (if s then - m else m)"

text \<open>\<open>a < b\<close> on floats: false as soon as one side is NaN, and \<open>-0 < +0\<close> is false.\<close>

fun fp_less :: "fp \<Rightarrow> fp \<Rightarrow> bool" where
  "fp_less NaN b = False"
| "fp_less a NaN = False"
| "fp_less (Infty s) (Infty t) = (s \<and> \<not> t)"
| "fp_less (Infty s) (Num t n) = s"
| "fp_less (Num s m) (Infty t) = (\<not> t)"
| "fp_less (Num s m) (Num t n) = (signed s m < signed t n)"

text \<open>\<open>std::min(a, b)\<close> is \<open>(b < a) ? b : a\<close>.\<close>

definition std_min :: "fp \<Rightarrow> fp \<Rightarrow> fp" where
  "std_min a b = (if fp_less b a then b else a)"

fun fdiv :: "format \<Rightarrow> fp \<Rightarrow> fp \<Rightarrow> fp" where
  "fdiv f NaN b = NaN"
| "fdiv f a NaN = NaN"
| "fdiv f (Infty s) (Infty t) = NaN"
| "fdiv f (Infty s) (Num t n) = Infty (s \<noteq> t)"
| "fdiv f (Num s m) (Infty t) = Num (s \<noteq> t) 0"
| "fdiv f (Num s m) (Num t n) =
     (if n = 0 then (if m = 0 then NaN else Infty (s \<noteq> t))
      else round_mag f (s \<noteq> t) (m / n))"

fun fmul :: "format \<Rightarrow> fp \<Rightarrow> fp \<Rightarrow> fp" where
  "fmul f NaN b = NaN"
| "fmul f a NaN = NaN"
| "fmul f (Infty s) (Infty t) = Infty (s \<noteq> t)"
| "fmul f (Infty s) (Num t n) = (if n = 0 then NaN else Infty (s \<noteq> t))"
| "fmul f (Num s m) (Infty t) = (if m = 0 then NaN else Infty (s \<noteq> t))"
| "fmul f (Num s m) (Num t n) = round_mag f (s \<noteq> t) (m * n)"

text \<open>The conversions: every float is a double; a double is rounded to float; an int is
  rounded to the format (exactly, when it fits the precision).\<close>

definition float_to_double :: "fp \<Rightarrow> fp" where
  "float_to_double x = x"

fun double_to_float :: "fp \<Rightarrow> fp" where
  "double_to_float NaN = NaN"
| "double_to_float (Infty s) = Infty s"
| "double_to_float (Num s m) = round_mag binary32 s m"

definition int_to_fp :: "format \<Rightarrow> int \<Rightarrow> fp" where
  "int_to_fp f n = round_mag f (n < 0) (of_int \<bar>n\<bar>)"

definition INT16_MAX :: int where
  "INT16_MAX = 32767"

fun is_zero :: "fp \<Rightarrow> bool" where
  "is_zero (Num s m) = (m = 0)"
| "is_zero x = False"

fun is_finite :: "fp \<Rightarrow> bool" where
  "is_finite (Num s m) = True"
| "is_finite x = False"

subsection \<open>The handler's members and the trace of calls\<close>

text \<open>\<open>AudioFrame<float>\<close>: a left and a right value.\<close>

record AudioFrame =
  left :: fp
  right :: fp

text \<open>A pointer is an address or null (\<open>None\<close>).\<close>

type_synonym ptr = nat

record MidiHandlerFluidsynth =
  settings :: "ptr option"
  synth :: "ptr option"
  channel :: "ptr option"
  is_open :: bool
  prescale_volume :: AudioFrame
  mixer_volume :: AudioFrame

text \<open>
  The calls to the collaborators. A call that returns something the code uses has the
  returned value as its last argument; the deleters are the calls that a
  \<open>std::unique_ptr\<close> makes when it lets go of a pointer that is not null. The log
  of an unknown command prints a \<open>uint64_t\<close> that \<open>memcpy\<close> filled from the message:
  the call has the eight bytes copied.
\<close>

datatype call =
    New_fluid_settings "ptr option"
  | Delete_fluid_settings ptr
  | Fluid_settings_setnum "ptr option" string fp
  | Fluid_settings_getnum "ptr option" string "fp option"
  | Fluid_settings_setint "ptr option" string int
  | Fluid_settings_setstr "ptr option" string string
  | New_fluid_synth "ptr option" "ptr option"
  | Delete_fluid_synth ptr
  | Fluid_synth_sfcount "ptr option" int
  | Fluid_synth_sfload "ptr option" string bool
  | Fluid_synth_noteoff "ptr option" int int
  | Fluid_synth_noteon "ptr option" int int int
  | Fluid_synth_key_pressure "ptr option" int int int
  | Fluid_synth_cc "ptr option" int int int
  | Fluid_synth_program_change "ptr option" int int
  | Fluid_synth_channel_pressure "ptr option" int int
  | Fluid_synth_pitch_bend "ptr option" int int
  | Fluid_synth_write_float "ptr option" nat "fp list"
  | Soft_limiter_Apply "fp list" nat "16 word list"
  | GetSection string "ptr option"
  | Get_int ptr string int
  | Get_string ptr string string
  | ResolveHomedir string string
  | MIXER_AddChannel nat string "ptr option"
  | MIXER_DelChannel ptr
  | RegisterVolCallBack ptr
  | Enable ptr bool
  | AddSamples_s16 ptr nat "16 word list"
  | LOG_MSG string
  | LOG_MSG_d string int
  | LOG_MSG_PRIx64 string "8 word list"

text \<open>
  The environment: what each collaborator returns, given the calls so far and the
  arguments, and the two things the build fixes: the constant
  \<open>expected_max_frames\<close> of the class declaration, and whether \<open>DEBUG_LOG_MSG\<close>
  logs (it expands to nothing in a release build).
  \<open>fluid_settings_getnum\<close> returns \<open>Some v\<close> when it writes \<open>v\<close> through its out
  pointer and \<open>None\<close> when it fails and leaves the variable alone;
  \<open>fluid_synth_write_float\<close> and the limiter return the samples they write to the head
  of the buffer they are given. The two callbacks that \<open>Open\<close> registers with the mixer,
  \<open>SetMixerVolume\<close> and \<open>MixerCallBack\<close>, are steps of their own: the mixer runs them
  on the handler and the trace that the step before has left. The one exception is
  \<open>RegisterVolCallBack\<close>, which may call the volume callback before it returns:
  \<open>RegisterVolCallBack_volume\<close> is the volume it calls it with, if it does.
\<close>

record env =
  new_fluid_settings :: "call list \<Rightarrow> ptr option"
  fluid_settings_getnum :: "call list \<Rightarrow> ptr option \<Rightarrow> string \<Rightarrow> fp option"
  new_fluid_synth :: "call list \<Rightarrow> ptr option \<Rightarrow> ptr option"
  fluid_synth_sfcount :: "call list \<Rightarrow> ptr option \<Rightarrow> int"
  fluid_synth_write_float :: "call list \<Rightarrow> ptr option \<Rightarrow> nat \<Rightarrow> fp list"
  soft_limiter_Apply :: "call list \<Rightarrow> fp list \<Rightarrow> nat \<Rightarrow> 16 word list"
  control_GetSection :: "call list \<Rightarrow> string \<Rightarrow> ptr option"
  section_Get_int :: "call list \<Rightarrow> ptr \<Rightarrow> string \<Rightarrow> int"
  section_Get_string :: "call list \<Rightarrow> ptr \<Rightarrow> string \<Rightarrow> string"
  Cross_ResolveHomedir :: "call list \<Rightarrow> string \<Rightarrow> string"
  MIXER_AddChannel_ret :: "call list \<Rightarrow> nat \<Rightarrow> string \<Rightarrow> ptr option"
  RegisterVolCallBack_volume :: "call list \<Rightarrow> AudioFrame option"
  expected_max_frames :: "16 word"
  debug_log :: bool

subsection \<open>SetMixerVolume\<close>

text \<open>
  Lines 68 to 70: the gain is the smaller volume, as a double; it is set in the engine
  and read back into the same variable. \<open>effective_gain\<close> is the value of \<open>gain\<close> after
  line 70, and \<open>gain_calls\<close> the two calls made.
\<close>

definition requested_gain :: "AudioFrame \<Rightarrow> fp" where
  "requested_gain desired_volume =
     float_to_double (std_min (left desired_volume) (right desired_volume))"

definition gain_readback ::
  "env \<Rightarrow> AudioFrame \<Rightarrow> MidiHandlerFluidsynth \<Rightarrow> call list \<Rightarrow> fp option" where
  "gain_readback ev desired_volume h w =
     fluid_settings_getnum ev
       (w @ [Fluid_settings_setnum (settings h) ''synth.gain'' (requested_gain desired_volume)])
       (settings h) ''synth.gain''"

definition gain_calls ::
  "env \<Rightarrow> AudioFrame \<Rightarrow> MidiHandlerFluidsynth \<Rightarrow> call list \<Rightarrow> call list" where
  "gain_calls ev desired_volume h w =
     [Fluid_settings_setnum (settings h) ''synth.gain'' (requested_gain desired_volume),
      Fluid_settings_getnum (settings h) ''synth.gain'' (gain_readback ev desired_volume h w)]"

definition effective_gain ::
  "env \<Rightarrow> AudioFrame \<Rightarrow> MidiHandlerFluidsynth \<Rightarrow> call list \<Rightarrow> fp" where
  "effective_gain ev desired_volume h w =
     (case gain_readback ev desired_volume h w of
        Some g \<Rightarrow> g
      | None \<Rightarrow> requested_gain desired_volume)"

text \<open>Lines 72 to 78.\<close>

definition SetMixerVolume ::
  "env \<Rightarrow> AudioFrame \<Rightarrow> MidiHandlerFluidsynth \<Rightarrow> call list
     \<Rightarrow> MidiHandlerFluidsynth \<times> call list" where
  "SetMixerVolume ev desired_volume h w =
     (let gain = effective_gain ev desired_volume h w;
          gain_f = double_to_float gain
      in (h\<lparr>prescale_volume :=
               \<lparr>left = fmul binary32 (int_to_fp binary32 INT16_MAX)
                        (fdiv binary32 (left desired_volume) gain_f),
                right = fmul binary32 (int_to_fp binary32 INT16_MAX)
                         (fdiv binary32 (right desired_volume) gain_f)\<rparr>,
             mixer_volume := desired_volume\<rparr>,
          w @ gain_calls ev desired_volume h w))"

subsection \<open>Errors\<close>

text \<open>
  Two things the C++ leaves undefined are results of the model: a call through a null
  pointer (\<open>channel->\<close>, \<open>section->\<close>) and an access beyond the end of a buffer. A
  result is \<open>Inl\<close> with the error and the calls made before it, or \<open>Inr\<close> with what the
  function leaves behind.
\<close>

datatype error = NullPointerDereference | OutOfBounds

type_synonym 'a result = "(error \<times> call list) + 'a"

definition ebind :: "'a result \<Rightarrow> ('a \<Rightarrow> 'b result) \<Rightarrow> 'b result" where
  "ebind r f = (case r of Inl e \<Rightarrow> Inl e | Inr x \<Rightarrow> f x)"

text \<open>What a \<open>std::unique_ptr\<close> does with the pointer it held when it is assigned a new
  one: the deleter is called unless the old pointer is null.\<close>

definition release :: "(ptr \<Rightarrow> call) \<Rightarrow> ptr option \<Rightarrow> call list" where
  "release deleter p = (case p of None \<Rightarrow> [] | Some a \<Rightarrow> [deleter a])"

subsection \<open>Close and Open\<close>

definition Close ::
  "MidiHandlerFluidsynth \<Rightarrow> call list \<Rightarrow> (MidiHandlerFluidsynth \<times> call list) result" where
  "Close h w =
     (if \<not> is_open h then Inr (h, w)
      else case channel h of
        None \<Rightarrow> Inl (NullPointerDereference, w)
      | Some c \<Rightarrow>
          Inr (h\<lparr>channel := None, synth := None, settings := None, is_open := False\<rparr>,
               w @ [Enable c False] @ [MIXER_DelChannel c]
                 @ release Delete_fluid_synth (synth h)
                 @ release Delete_fluid_settings (settings h)))"

text \<open>
  Lines 115 to 122 of \<open>Open\<close>: the SoundFont is loaded when its path is not empty and the
  synthesizer has none (the count is asked only when the path is not empty), and the
  count is asked again for the debug log.
\<close>

definition load_soundfont :: "env \<Rightarrow> ptr option \<Rightarrow> string \<Rightarrow> call list \<Rightarrow> call list" where
  "load_soundfont ev sy soundfont w =
     (if soundfont \<noteq> [] then
        (let n = fluid_synth_sfcount ev w sy;
             w = w @ [Fluid_synth_sfcount sy n]
         in if n = 0 then w @ [Fluid_synth_sfload sy soundfont True] else w)
      else w)"

definition log_soundfonts :: "env \<Rightarrow> ptr option \<Rightarrow> call list \<Rightarrow> call list" where
  "log_soundfonts ev sy w =
     (if debug_log ev then
        (let n = fluid_synth_sfcount ev w sy
         in w @ [Fluid_synth_sfcount sy n,
                 LOG_MSG_d ''MIDI: FluidSynth loaded %d SoundFont files'' n])
      else w)"

text \<open>Lines 133 to 140: the volume callback is registered (and run, when the mixer
  calls it at once), the channel is enabled and the handler is open.\<close>

definition Open_register ::
  "env \<Rightarrow> ptr \<Rightarrow> MidiHandlerFluidsynth \<Rightarrow> call list
     \<Rightarrow> bool \<times> MidiHandlerFluidsynth \<times> call list" where
  "Open_register ev c h w =
     (let w = w @ [RegisterVolCallBack c];
          (h, w) = (case RegisterVolCallBack_volume ev w of
                      None \<Rightarrow> (h, w)
                    | Some v \<Rightarrow> SetMixerVolume ev v h w)
      in (True, h\<lparr>is_open := True\<rparr>, w @ [Enable c True]))"

text \<open>Lines 113 to 131: what \<open>Open\<close> does once both objects exist.\<close>

definition Open_finish ::
  "env \<Rightarrow> ptr \<Rightarrow> int \<Rightarrow> ptr option \<Rightarrow> MidiHandlerFluidsynth \<Rightarrow> call list
     \<Rightarrow> (bool \<times> MidiHandlerFluidsynth \<times> call list) result" where
  "Open_finish ev sec sample_rate fluid_synth h w =
     (let w = w @ release Delete_fluid_synth (synth h);
          h = h\<lparr>synth := fluid_synth\<rparr>;
          soundfont = section_Get_string ev w sec ''soundfont'';
          w = w @ [Get_string sec ''soundfont'' soundfont];
          resolved = Cross_ResolveHomedir ev w soundfont;
          w = w @ [ResolveHomedir soundfont resolved];
          w = load_soundfont ev (synth h) resolved w;
          w = log_soundfonts ev (synth h) w;
          rate = nat (sample_rate mod 2 ^ 32);
          mixer_channel = MIXER_AddChannel_ret ev w rate ''FSYNTH'';
          w = w @ [MIXER_AddChannel rate ''FSYNTH'' mixer_channel];
          w = w @ release MIXER_DelChannel (channel h);
          h = h\<lparr>channel := mixer_channel\<rparr>
      in case channel h of
           None \<Rightarrow> Inl (NullPointerDereference, w)
         | Some c \<Rightarrow> Inr (Open_register ev c h w))"

text \<open>Lines 92 to 112: the settings object exists; it is configured and becomes the
  member, and the synthesizer is created from it.\<close>

definition Open_configure ::
  "env \<Rightarrow> ptr option \<Rightarrow> MidiHandlerFluidsynth \<Rightarrow> call list
     \<Rightarrow> (bool \<times> MidiHandlerFluidsynth \<times> call list) result" where
  "Open_configure ev fluid_settings h w =
     (let section = control_GetSection ev w ''fluidsynth'';
          w = w @ [GetSection ''fluidsynth'' section]
      in case section of
           None \<Rightarrow> Inl (NullPointerDereference, w)
         | Some sec \<Rightarrow>
            (let sample_rate = section_Get_int ev w sec ''fluid_rate'';
                 w = w @ [Get_int sec ''fluid_rate'' sample_rate];
                 w = w @ [Fluid_settings_setnum fluid_settings ''synth.sample-rate''
                            (int_to_fp binary64 sample_rate)];
                 cpu_cores = section_Get_int ev w sec ''synth_threads'';
                 w = w @ [Get_int sec ''synth_threads'' cpu_cores];
                 w = w @ [Fluid_settings_setint fluid_settings ''synth.cpu-cores'' cpu_cores];
                 w = w @ [Fluid_settings_setstr fluid_settings ''audio.sample-format'' ''float''];
                 w = w @ release Delete_fluid_settings (settings h);
                 h = h\<lparr>settings := fluid_settings\<rparr>;
                 fluid_synth = new_fluid_synth ev w (settings h);
                 w = w @ [New_fluid_synth (settings h) fluid_synth]
             in if fluid_synth = None then
                  Inr (False, h,
                       w @ [LOG_MSG ''MIDI: Failed to create the FluidSynth synthesizer''])
                else Open_finish ev sec sample_rate fluid_synth h w))"

definition Open ::
  "env \<Rightarrow> MidiHandlerFluidsynth \<Rightarrow> call list
     \<Rightarrow> (bool \<times> MidiHandlerFluidsynth \<times> call list) result" where
  "Open ev h w =
     ebind (Close h w) (\<lambda>(h, w).
       let fluid_settings = new_fluid_settings ev w;
           w = w @ [New_fluid_settings fluid_settings]
       in if fluid_settings = None then
            Inr (False, h, w @ [LOG_MSG ''MIDI: new_fluid_settings failed''])
          else Open_configure ev fluid_settings h w)"

subsection \<open>PlayMsg\<close>

text \<open>\<open>msg\<close> points to a buffer of bytes; \<open>msg[i]\<close> reads inside it or is out of bounds.\<close>

definition read_msg :: "8 word list \<Rightarrow> nat \<Rightarrow> call list \<Rightarrow> 8 word result" where
  "read_msg msg i w = (if i < length msg then Inr (msg ! i) else Inl (OutOfBounds, w))"

text \<open>
  The bytes are promoted to \<open>int\<close> before \<open>&\<close>, \<open>+\<close> and \<open><<\<close>, so nothing wraps. The
  default case copies \<open>sizeof(uint64_t) = 8\<close> bytes from \<open>msg\<close> and logs them; the
  format of the log ends with the macro \<open>PRIx64\<close>, which is left out of the string here.
\<close>

definition PlayMsg :: "MidiHandlerFluidsynth \<Rightarrow> 8 word list \<Rightarrow> call list \<Rightarrow> call list result" where
  "PlayMsg h msg w =
     ebind (read_msg msg 0 w) (\<lambda>m0.
       let chanID = uint m0 AND 0b1111;
           cls = uint m0 AND 0b11110000
       in if cls = 0b10000000 then
            ebind (read_msg msg 1 w) (\<lambda>m1.
              Inr (w @ [Fluid_synth_noteoff (synth h) chanID (uint m1)]))
          else if cls = 0b10010000 then
            ebind (read_msg msg 1 w) (\<lambda>m1. ebind (read_msg msg 2 w) (\<lambda>m2.
              Inr (w @ [Fluid_synth_noteon (synth h) chanID (uint m1) (uint m2)])))
          else if cls = 0b10100000 then
            ebind (read_msg msg 1 w) (\<lambda>m1. ebind (read_msg msg 2 w) (\<lambda>m2.
              Inr (w @ [Fluid_synth_key_pressure (synth h) chanID (uint m1) (uint m2)])))
          else if cls = 0b10110000 then
            ebind (read_msg msg 1 w) (\<lambda>m1. ebind (read_msg msg 2 w) (\<lambda>m2.
              Inr (w @ [Fluid_synth_cc (synth h) chanID (uint m1) (uint m2)])))
          else if cls = 0b11000000 then
            ebind (read_msg msg 1 w) (\<lambda>m1.
              Inr (w @ [Fluid_synth_program_change (synth h) chanID (uint m1)]))
          else if cls = 0b11010000 then
            ebind (read_msg msg 1 w) (\<lambda>m1.
              Inr (w @ [Fluid_synth_channel_pressure (synth h) chanID (uint m1)]))
          else if cls = 0b11100000 then
            ebind (read_msg msg 1 w) (\<lambda>m1. ebind (read_msg msg 2 w) (\<lambda>m2.
              Inr (w @ [Fluid_synth_pitch_bend (synth h) chanID
                          (uint m1 + push_bit 7 (uint m2))])))
          else if 8 \<le> length msg then
            Inr (w @ [LOG_MSG_PRIx64 ''MIDI: unknown MIDI command: %0'' (take 8 msg)])
          else Inl (OutOfBounds, w))"

subsection \<open>MixerCallBack\<close>

text \<open>
  The two arrays have \<open>max_samples\<close> elements, a \<open>uint16_t\<close> computed from
  \<open>expected_max_frames\<close>. A call that fills the first \<open>2 * len\<close> elements of an array
  from a collaborator's samples is \<open>overwrite\<close>; it is out of bounds when the array is
  shorter than that.
\<close>

definition overwrite :: "'a list \<Rightarrow> 'a list \<Rightarrow> 'a list" where
  "overwrite xs buf = xs @ drop (length xs) buf"

text \<open>
  The \<open>while\<close> loop of lines 208 to 216. Nothing in the code bounds the number of
  iterations, so the loop is a partial function: \<open>None\<close> is a loop that never ends.
\<close>

partial_function (option) MixerCallBack_loop ::
  "env \<Rightarrow> MidiHandlerFluidsynth \<Rightarrow> 16 word \<Rightarrow> fp list \<Rightarrow> 16 word list \<Rightarrow> call list
     \<Rightarrow> call list result option" where
  "MixerCallBack_loop ev h frames accumulator scaled w =
     (if 0 < frames then
        (let max_frames = expected_max_frames ev;
             len = min frames max_frames;
             n = unat len
         in if length accumulator < 2 * n \<or> length scaled < 2 * n then
              Some (Inl (OutOfBounds, w))
            else
              (let written = take (2 * n) (fluid_synth_write_float ev w (synth h) n);
                   w = w @ [Fluid_synth_write_float (synth h) n written];
                   accumulator = overwrite written accumulator;
                   limited = take (2 * n) (soft_limiter_Apply ev w accumulator n);
                   w = w @ [Soft_limiter_Apply accumulator n limited];
                   scaled = overwrite limited scaled
               in case channel h of
                    None \<Rightarrow> Some (Inl (NullPointerDereference, w))
                  | Some c \<Rightarrow>
                      MixerCallBack_loop ev h (frames - len) accumulator scaled
                        (w @ [AddSamples_s16 c n (take (2 * n) scaled)])))
      else Some (Inr w))"

definition MixerCallBack ::
  "env \<Rightarrow> MidiHandlerFluidsynth \<Rightarrow> 16 word \<Rightarrow> call list \<Rightarrow> call list result option" where
  "MixerCallBack ev h frames w =
     (let max_samples = expected_max_frames ev * 2
      in MixerCallBack_loop ev h frames
           (replicate (unat max_samples) (Num False 0))
           (replicate (unat max_samples) 0) w)"

subsection \<open>The specification's side\<close>

text \<open>
  The dispatch table of the specification (section 4.2): the channel is
  \<open>status & 0x0F\<close>, the class is \<open>status & 0xF0\<close>, and each recognized class is one
  engine operation on the data bytes; any other class is no engine call.
\<close>

definition recognized_class :: "8 word \<Rightarrow> bool" where
  "recognized_class status =
     (status AND 0xF0 \<in> {0x80, 0x90, 0xA0, 0xB0, 0xC0, 0xD0, 0xE0})"

definition spec_dispatch :: "ptr option \<Rightarrow> 8 word \<Rightarrow> 8 word \<Rightarrow> 8 word \<Rightarrow> call list" where
  "spec_dispatch sy status data1 data2 =
     (let chan = uint (status AND 0x0F);
          cls = status AND 0xF0
      in if cls = 0x80 then [Fluid_synth_noteoff sy chan (uint data1)]
         else if cls = 0x90 then [Fluid_synth_noteon sy chan (uint data1) (uint data2)]
         else if cls = 0xA0 then [Fluid_synth_key_pressure sy chan (uint data1) (uint data2)]
         else if cls = 0xB0 then [Fluid_synth_cc sy chan (uint data1) (uint data2)]
         else if cls = 0xC0 then [Fluid_synth_program_change sy chan (uint data1)]
         else if cls = 0xD0 then [Fluid_synth_channel_pressure sy chan (uint data1)]
         else if cls = 0xE0 then [Fluid_synth_pitch_bend sy chan (uint data1 + uint data2 * 2 ^ 7)]
         else [])"

text \<open>The data bytes that the table forwards for a class: the message has the status
  byte and these.\<close>

definition spec_data_bytes :: "8 word \<Rightarrow> nat" where
  "spec_data_bytes status =
     (let cls = status AND 0xF0
      in if cls \<in> {0x90, 0xA0, 0xB0, 0xE0} then 2
         else if cls \<in> {0x80, 0xC0, 0xD0} then 1
         else 0)"



subsection \<open>Reading a trace\<close>

text \<open>The calls that go to the FluidSynth engine.\<close>

fun engine_call :: "call \<Rightarrow> bool" where
  "engine_call (New_fluid_settings r) = True"
| "engine_call (Delete_fluid_settings p) = True"
| "engine_call (Fluid_settings_setnum p n v) = True"
| "engine_call (Fluid_settings_getnum p n r) = True"
| "engine_call (Fluid_settings_setint p n v) = True"
| "engine_call (Fluid_settings_setstr p n v) = True"
| "engine_call (New_fluid_synth p r) = True"
| "engine_call (Delete_fluid_synth p) = True"
| "engine_call (Fluid_synth_sfcount p r) = True"
| "engine_call (Fluid_synth_sfload p n b) = True"
| "engine_call (Fluid_synth_noteoff p c k) = True"
| "engine_call (Fluid_synth_noteon p c k v) = True"
| "engine_call (Fluid_synth_key_pressure p c k v) = True"
| "engine_call (Fluid_synth_cc p c k v) = True"
| "engine_call (Fluid_synth_program_change p c k) = True"
| "engine_call (Fluid_synth_channel_pressure p c k) = True"
| "engine_call (Fluid_synth_pitch_bend p c k) = True"
| "engine_call (Fluid_synth_write_float p n xs) = True"
| "engine_call c = False"

text \<open>A creation that returned null, and a mixer channel being enabled.\<close>

fun creation_failed :: "call \<Rightarrow> bool" where
  "creation_failed (New_fluid_settings None) = True"
| "creation_failed (New_fluid_synth p None) = True"
| "creation_failed c = False"

fun enables_channel :: "call \<Rightarrow> bool" where
  "enables_channel (Enable c True) = True"
| "enables_channel c = False"

definition trace_of :: "(bool \<times> MidiHandlerFluidsynth \<times> call list) result \<Rightarrow> call list" where
  "trace_of r = (case r of Inl (e, w) \<Rightarrow> w | Inr (ok, h, w) \<Rightarrow> w)"

text \<open>The frames of the blocks delivered to the mixer channel, in order.\<close>

fun delivered :: "call list \<Rightarrow> nat list" where
  "delivered [] = []"
| "delivered (AddSamples_s16 c n ys # cs) = n # delivered cs"
| "delivered (x # cs) = delivered cs"

text \<open>
  A trace is \<open>chained\<close> when it is a sequence of rounds of three calls: the engine
  renders \<open>n\<close> frames, the limiter is applied to \<open>n\<close> frames of a buffer that starts with
  the samples just rendered, and the channel is given \<open>n\<close> frames, \<open>2 * n\<close> samples
  that start with the samples the limiter just wrote.
\<close>

definition round_ok :: "call \<Rightarrow> call \<Rightarrow> call \<Rightarrow> bool" where
  "round_ok a b c =
     (case a of
        Fluid_synth_write_float sy n xs \<Rightarrow>
          (case b of
             Soft_limiter_Apply acc m ys \<Rightarrow>
               (case c of
                  AddSamples_s16 ch k zs \<Rightarrow>
                    m = n \<and> k = n \<and> take (length xs) acc = xs
                      \<and> take (length ys) zs = ys \<and> length zs = 2 * n
                | _ \<Rightarrow> False)
           | _ \<Rightarrow> False)
      | _ \<Rightarrow> False)"

fun chained :: "call list \<Rightarrow> bool" where
  "chained [] = True"
| "chained (a # b # c # cs) = (round_ok a b c \<and> chained cs)"
| "chained cs = False"

subsection \<open>An environment and two handlers to run the model on\<close>

text \<open>
  An engine that stores the numbers it is given and reads the last one back, creates
  its objects, and renders silence; a configuration with the default sample rate, one
  thread and no SoundFont; a mixer that calls the volume callback with the volume (1, 1)
  when it is registered; a limiter that writes zeros; a maximum of 192 frames.
\<close>

fun last_setnum :: "call list \<Rightarrow> string \<Rightarrow> fp option" where
  "last_setnum [] name = None"
| "last_setnum (Fluid_settings_setnum p n v # cs) name =
     (case last_setnum cs name of
        Some v' \<Rightarrow> Some v'
      | None \<Rightarrow> if n = name then Some v else None)"
| "last_setnum (c # cs) name = last_setnum cs name"

definition sample_env :: env where
  "sample_env = \<lparr>
     new_fluid_settings = (\<lambda>w. Some 1),
     fluid_settings_getnum = (\<lambda>w p name. last_setnum w name),
     new_fluid_synth = (\<lambda>w s. Some 2),
     fluid_synth_sfcount = (\<lambda>w s. 0),
     fluid_synth_write_float = (\<lambda>w s n. replicate (2 * n) (Num False 0)),
     soft_limiter_Apply = (\<lambda>w a n. replicate (2 * n) 0),
     control_GetSection = (\<lambda>w name. Some 3),
     section_Get_int = (\<lambda>w s name. if name = ''fluid_rate'' then 44100 else 1),
     section_Get_string = (\<lambda>w s name. []),
     Cross_ResolveHomedir = (\<lambda>w s. s),
     MIXER_AddChannel_ret = (\<lambda>w r n. Some 4),
     RegisterVolCallBack_volume = (\<lambda>w. Some \<lparr>left = Num False 1, right = Num False 1\<rparr>),
     expected_max_frames = 192,
     debug_log = False\<rparr>"

definition closed_handler :: MidiHandlerFluidsynth where
  "closed_handler =
     \<lparr>settings = None, synth = None, channel = None, is_open = False,
      prescale_volume = \<lparr>left = Num False 1, right = Num False 1\<rparr>,
      mixer_volume = \<lparr>left = Num False 1, right = Num False 1\<rparr>\<rparr>"

definition open_handler :: MidiHandlerFluidsynth where
  "open_handler =
     \<lparr>settings = Some 1, synth = Some 2, channel = Some 4, is_open = True,
      prescale_volume = \<lparr>left = Num False 1, right = Num False 1\<rparr>,
      mixer_volume = \<lparr>left = Num False 1, right = Num False 1\<rparr>\<rparr>"

text \<open>
  A second environment, to see the samples move: its engine renders the samples
  0, 1, 2, ... of one endless stream, each call going on where the last one stopped,
  its limiter only converts each sample to an integer, and the maximum is 2 frames.
\<close>

fun frames_rendered :: "call list \<Rightarrow> nat" where
  "frames_rendered [] = 0"
| "frames_rendered (Fluid_synth_write_float sy n xs # cs) = n + frames_rendered cs"
| "frames_rendered (c # cs) = frames_rendered cs"

fun delivered_samples :: "call list \<Rightarrow> 16 word list" where
  "delivered_samples [] = []"
| "delivered_samples (AddSamples_s16 c n ys # cs) = ys @ delivered_samples cs"
| "delivered_samples (x # cs) = delivered_samples cs"

fun to_s16 :: "fp \<Rightarrow> 16 word" where
  "to_s16 (Num s m) = word_of_int (if s then - \<lfloor>m\<rfloor> else \<lfloor>m\<rfloor>)"
| "to_s16 x = 0"

definition counting_env :: env where
  "counting_env = sample_env\<lparr>
     fluid_synth_write_float :=
       (\<lambda>w sy n. map (\<lambda>i. Num False (of_nat i))
          [2 * frames_rendered w ..< 2 * (frames_rendered w + n)]),
     soft_limiter_Apply := (\<lambda>w a n. map to_s16 (take (2 * n) a)),
     expected_max_frames := 2\<rparr>"

section \<open>Properties\<close>

subsection \<open>The rounding\<close>

text \<open>
  \<open>ilog2\<close> finds the binade of a positive magnitude, \<open>rne\<close> is within one half of its
  argument, and so a magnitude that rounds to a finite value moves by at most half the
  spacing of the format's values around it.
\<close>

lemma pow2_powi: "pow2 k = 2 powi k"
  by (simp add: pow2_def power_int_def power_inverse inverse_eq_divide power_one_over)

lemma pow2_pos: "0 < pow2 k"
  by (simp add: pow2_def)

lemma rne_bounds: "\<bar>of_int (rne x) - x\<bar> \<le> 1 / 2"
proof -
  define f where "f = \<lfloor>x\<rfloor>"
  have "of_int f \<le> x" "x < of_int f + 1"
    unfolding f_def by linarith+
  then show ?thesis
    unfolding rne_def Let_def f_def [symmetric] by (auto simp: abs_if)
qed

lemma bitlen_powi:
  assumes "0 < n"
  shows "(2 :: rat) powi (bitlen n - 1) \<le> of_int n" and "of_int n < (2 :: rat) powi bitlen n"
proof -
  from assms have b: "1 \<le> bitlen n" by (auto simp: bitlen_alt_def)
  from bitlen_bounds [OF assms] have "2 ^ nat (bitlen n - 1) \<le> n" "n < 2 ^ nat (bitlen n)"
    by auto
  then have "(of_int (2 ^ nat (bitlen n - 1)) :: rat) \<le> of_int n"
    "(of_int n :: rat) < of_int (2 ^ nat (bitlen n))"
    by (simp_all only: of_int_le_iff of_int_less_iff)
  then show "(2 :: rat) powi (bitlen n - 1) \<le> of_int n"
    and "of_int n < (2 :: rat) powi bitlen n"
    using b by (simp_all add: power_int_def)
qed

lemma ilog2_bounds:
  assumes "0 < m"
  shows "pow2 (ilog2 m) \<le> m \<and> m < pow2 (ilog2 m + 1)"
proof -
  obtain n d where q: "quotient_of m = (n, d)" by (cases "quotient_of m")
  then have d: "0 < d" and m: "m = of_int n / of_int d"
    by (simp_all add: quotient_of_denom_pos quotient_of_div)
  with assms have n: "0 < n"
    by (simp add: zero_less_divide_iff)
  define k where "k = bitlen n - bitlen d"
  note bn = bitlen_powi [OF n] and bd = bitlen_powi [OF d]
  have dpos: "(0 :: rat) < of_int d" using d by simp
  have "m < 2 powi bitlen n / 2 powi (bitlen d - 1)"
    unfolding m using bn(2) bd(1) dpos
    using n by (intro frac_less) auto
  also have "\<dots> = 2 powi (k + 1)"
    by (simp add: k_def power_int_diff [symmetric] algebra_simps)
  finally have up: "m < 2 powi (k + 1)" .
  have "2 powi (bitlen n - 1) / 2 powi bitlen d \<le> m"
    unfolding m using bn(1) bd(2) dpos
    using n by (intro frac_le) auto
  moreover have "(2 :: rat) powi (bitlen n - 1) / 2 powi bitlen d = 2 powi (k - 1)"
    by (simp add: k_def power_int_diff [symmetric] algebra_simps)
  ultimately have lo: "2 powi (k - 1) \<le> m" by simp
  show ?thesis
    using up lo by (simp add: ilog2_def q Let_def k_def [symmetric] pow2_powi)
qed

lemma round_mag_error:
  assumes "0 < m" and "round_mag f s m = Num s' r"
  shows "s' = s \<and> \<bar>r - m\<bar> \<le> pow2 (max (ilog2 m) (emin f) - (int (prec f) - 1)) / 2"
proof -
  define ulp where "ulp = pow2 (max (ilog2 m) (emin f) - (int (prec f) - 1))"
  have u: "0 < ulp" by (simp add: ulp_def pow2_pos)
  from assms have r: "r = of_int (rne (m / ulp)) * ulp" and s: "s' = s"
    by (auto simp: round_mag_def Let_def ulp_def split: if_splits)
  have "\<bar>of_int (rne (m / ulp)) - m / ulp\<bar> * ulp \<le> 1 / 2 * ulp"
    using rne_bounds [of "m / ulp"] u by (intro mult_right_mono) auto
  moreover have "(of_int (rne (m / ulp)) - m / ulp) * ulp = r - m"
    using u by (simp add: r left_diff_distrib)
  then have "\<bar>of_int (rne (m / ulp)) - m / ulp\<bar> * ulp = \<bar>r - m\<bar>"
    using u by (metis abs_mult abs_of_pos)
  ultimately show ?thesis
    using s by (simp add: ulp_def)
qed

subsection \<open>The gain calibration of SetMixerVolume\<close>

lemma int16_max_float: "int_to_fp binary32 INT16_MAX = Num False 32767"
  by code_simp

lemma double_to_float_zero: "is_zero g \<Longrightarrow> is_zero (double_to_float g)"
  by (cases g) (simp_all add: round_mag_def)

lemma fdiv_by_zero:
  "is_zero g \<Longrightarrow>
     \<not> is_finite (fdiv f x g) \<and> (fdiv f x g = NaN \<longleftrightarrow> x = NaN \<or> is_zero x)"
  by (cases g; cases x) simp_all

lemma fmul_int16_max_not_finite:
  "\<not> is_finite y \<Longrightarrow>
     \<not> is_finite (fmul f (Num False 32767) y) \<and> (fmul f (Num False 32767) y = NaN \<longleftrightarrow> y = NaN)"
  by (cases y) simp_all

text \<open>Some values of the arithmetic: 0.1 as a float, an overflow, an underflow that
  keeps its sign, a third, and the first integer that is not a float.\<close>

lemma rounding_examples:
  "double_to_float (Num False (1 / 10)) = Num False (13421773 / 134217728)"
  "double_to_float (Num False (2 ^ 128)) = Infty False"
  "double_to_float (Num True (1 / 2 ^ 150)) = Num True 0"
  "fdiv binary32 (Num False 1) (Num False 3) = Num False (11184811 / 33554432)"
  "int_to_fp binary32 16777217 = Num False 16777216"
  by code_simp+

text \<open>A run: the volume (1, 0.5) on an engine that keeps the gain it is given. The gain
  is 0.5 and the pre-scale (2 * 32767, 32767): the balance between the channels is in
  the pre-scale.\<close>

lemma SetMixerVolume_example:
  "SetMixerVolume sample_env \<lparr>left = Num False 1, right = Num False (1 / 2)\<rparr> open_handler []
   = (open_handler\<lparr>prescale_volume := \<lparr>left = Num False 65534, right = Num False 32767\<rparr>,
        mixer_volume := \<lparr>left = Num False 1, right = Num False (1 / 2)\<rparr>\<rparr>,
      [Fluid_settings_setnum (Some 1) ''synth.gain'' (Num False (1 / 2)),
       Fluid_settings_getnum (Some 1) ''synth.gain'' (Some (Num False (1 / 2)))])"
  by code_simp

lemma sample_gain_zero:
  "effective_gain sample_env \<lparr>left = Num False 1, right = Num False 0\<rparr> closed_handler []
     = Num False 0"
  by (simp add: effective_gain_def gain_readback_def sample_env_def requested_gain_def
        std_min_def float_to_double_def signed_def)

lemma quarter_gain_arith:
  "fmul binary32 (Num False 32767)
     (fdiv binary32 (Num False 1) (double_to_float (Num False (1 / 4)))) = Num False 131068"
  "fmul binary32 (Num False 32767)
     (fdiv binary32 (Num False (1 / 2)) (double_to_float (Num False (1 / 4)))) = Num False 65534"
  by code_simp+

text \<open>
  C1: for every desired volume, \<open>SetMixerVolume\<close> takes as gain the smaller of the two
  channels (\<open>right\<close> when \<open>right < left\<close>, else \<open>left\<close>), sets the engine's
  \<open>synth.gain\<close> to it, asks the engine for \<open>synth.gain\<close> after that call, and sets the
  pre-scale of each channel to \<open>INT16_MAX * (desired / gain_f)\<close>, where \<open>gain_f\<close> is the
  float of what the engine answered (of the gain set, when the engine writes nothing
  back). The two calls are the only ones made, in this order; the arithmetic is the
  float arithmetic of the code, the division first.
\<close>

theorem SetMixerVolume_gain_and_prescale:
  "(let gain = (if fp_less (right d) (left d) then right d else left d);
        set_call = Fluid_settings_setnum (settings h) ''synth.gain'' gain;
        read_back = fluid_settings_getnum ev (w @ [set_call]) (settings h) ''synth.gain'';
        gain_f = double_to_float (case read_back of Some g \<Rightarrow> g | None \<Rightarrow> gain)
    in snd (SetMixerVolume ev d h w) =
         w @ [set_call, Fluid_settings_getnum (settings h) ''synth.gain'' read_back]
       \<and> prescale_volume (fst (SetMixerVolume ev d h w)) =
         \<lparr>left = fmul binary32 (Num False 32767) (fdiv binary32 (left d) gain_f),
          right = fmul binary32 (Num False 32767) (fdiv binary32 (right d) gain_f)\<rparr>)"
proof -
  have gain: "requested_gain d = (if fp_less (right d) (left d) then right d else left d)"
    by (simp add: requested_gain_def std_min_def float_to_double_def)
  show ?thesis
    unfolding Let_def SetMixerVolume_def gain_calls_def effective_gain_def gain_readback_def
      int16_max_float gain
    by simp
qed

text \<open>The volume (1, 0.5) on an engine that answers 0.25 whatever gain it is given: the
  gain set is 0.5, and the pre-scale is 32767 times (1 / 0.25, 0.5 / 0.25), the
  division being by the answer and not by the gain set.\<close>

theorem SetMixerVolume_gain_and_prescale_witness:
  "snd (SetMixerVolume
          (sample_env\<lparr>fluid_settings_getnum := \<lambda>w p name. Some (Num False (1 / 4))\<rparr>)
          \<lparr>left = Num False 1, right = Num False (1 / 2)\<rparr> open_handler []) =
     [Fluid_settings_setnum (Some 1) ''synth.gain'' (Num False (1 / 2)),
      Fluid_settings_getnum (Some 1) ''synth.gain'' (Some (Num False (1 / 4)))]
   \<and> prescale_volume (fst (SetMixerVolume
          (sample_env\<lparr>fluid_settings_getnum := \<lambda>w p name. Some (Num False (1 / 4))\<rparr>)
          \<lparr>left = Num False 1, right = Num False (1 / 2)\<rparr> open_handler [])) =
     \<lparr>left = Num False 131068, right = Num False 65534\<rparr>"
  using SetMixerVolume_gain_and_prescale
    [of "\<lparr>left = Num False 1, right = Num False (1 / 2)\<rparr>" open_handler
      "sample_env\<lparr>fluid_settings_getnum := \<lambda>w p name. Some (Num False (1 / 4))\<rparr>" "[]"]
  by (simp add: Let_def sample_env_def open_handler_def signed_def quarter_gain_arith
        del: double_to_float.simps)

text \<open>
  C3, as the specification has it, asks for a guard: with a gain that reads back as zero
  the pre-scale would be a fallback value, not the result of a division by zero. The
  code has no guard. With the volume (1, 0) the engine is given the gain 0 and reads 0
  back, and the pre-scale becomes (+infinity, NaN): 1 / 0 and 0 / 0, times 32767.
\<close>

theorem SetMixerVolume_zero_gain_unguarded:
  "is_zero (effective_gain sample_env \<lparr>left = Num False 1, right = Num False 0\<rparr>
      closed_handler [])
   \<and> prescale_volume
       (fst (SetMixerVolume sample_env \<lparr>left = Num False 1, right = Num False 0\<rparr>
          closed_handler []))
     = \<lparr>left = Infty False, right = NaN\<rparr>"
  by (simp add: SetMixerVolume_def Let_def sample_gain_zero int16_max_float round_mag_def)

text \<open>
  C3, amended: when the effective gain is zero, \<open>SetMixerVolume\<close> divides by it all the
  same, and no pre-scale is a finite number: the pre-scale of a channel is NaN when the
  desired volume of the channel is zero or NaN, and an infinity otherwise.
\<close>

theorem SetMixerVolume_zero_gain:
  assumes "is_zero (effective_gain ev d h w)"
  shows "\<not> is_finite (left (prescale_volume (fst (SetMixerVolume ev d h w))))
       \<and> \<not> is_finite (right (prescale_volume (fst (SetMixerVolume ev d h w))))
       \<and> (left (prescale_volume (fst (SetMixerVolume ev d h w))) = NaN
            \<longleftrightarrow> left d = NaN \<or> is_zero (left d))
       \<and> (right (prescale_volume (fst (SetMixerVolume ev d h w))) = NaN
            \<longleftrightarrow> right d = NaN \<or> is_zero (right d))"
proof -
  have z: "is_zero (double_to_float (effective_gain ev d h w))"
    using assms by (rule double_to_float_zero)
  show ?thesis
    using fdiv_by_zero [OF z, of binary32 "left d"] fdiv_by_zero [OF z, of binary32 "right d"]
    by (simp add: SetMixerVolume_def Let_def int16_max_float fmul_int16_max_not_finite)
qed

theorem SetMixerVolume_zero_gain_witness:
  "is_zero (effective_gain sample_env \<lparr>left = Num False 1, right = Num False 0\<rparr>
      closed_handler [])
   \<and> \<not> is_finite (left (prescale_volume
         (fst (SetMixerVolume sample_env \<lparr>left = Num False 1, right = Num False 0\<rparr>
            closed_handler []))))
   \<and> right (prescale_volume
         (fst (SetMixerVolume sample_env \<lparr>left = Num False 1, right = Num False 0\<rparr>
            closed_handler []))) = NaN"
  using SetMixerVolume_zero_gain
    [of sample_env "\<lparr>left = Num False 1, right = Num False 0\<rparr>" closed_handler "[]"]
  by (simp add: sample_gain_zero)

text \<open>
  C6: after \<open>SetMixerVolume\<close> the retained mixer volume is the desired volume itself,
  whatever the engine read back.
\<close>

theorem SetMixerVolume_retains_volume:
  "mixer_volume (fst (SetMixerVolume ev d h w)) = d"
  by (simp add: SetMixerVolume_def Let_def)

text \<open>
  C10: \<open>SetMixerVolume\<close> changes two members only, the pre-scale volume and the mixer
  volume: the open flag and the three pointers are as before. Its only calls are the
  two on the engine's \<open>synth.gain\<close>. The pre-scale is assigned as a pair, both channels
  from the same gain, and nothing of the old pair remains: the result is the same from
  any old pre-scale.
\<close>

theorem SetMixerVolume_frame:
  "fst (SetMixerVolume ev d h w) =
     h\<lparr>prescale_volume := prescale_volume (fst (SetMixerVolume ev d h w)), mixer_volume := d\<rparr>
   \<and> is_open (fst (SetMixerVolume ev d h w)) = is_open h
   \<and> synth (fst (SetMixerVolume ev d h w)) = synth h
   \<and> settings (fst (SetMixerVolume ev d h w)) = settings h
   \<and> channel (fst (SetMixerVolume ev d h w)) = channel h
   \<and> snd (SetMixerVolume ev d h w) =
       w @ [Fluid_settings_setnum (settings h) ''synth.gain'' (requested_gain d),
            Fluid_settings_getnum (settings h) ''synth.gain'' (gain_readback ev d h w)]
   \<and> (\<exists>g. prescale_volume (fst (SetMixerVolume ev d h w)) =
         \<lparr>left = fmul binary32 (int_to_fp binary32 INT16_MAX) (fdiv binary32 (left d) g),
          right = fmul binary32 (int_to_fp binary32 INT16_MAX) (fdiv binary32 (right d) g)\<rparr>)
   \<and> fst (SetMixerVolume ev d (h\<lparr>prescale_volume := p\<rparr>) w) = fst (SetMixerVolume ev d h w)"
proof -
  have same: "effective_gain ev d (h\<lparr>prescale_volume := p\<rparr>) w = effective_gain ev d h w"
    by (simp add: effective_gain_def gain_readback_def)
  have ex: "\<exists>g. prescale_volume (fst (SetMixerVolume ev d h w)) =
         \<lparr>left = fmul binary32 (int_to_fp binary32 INT16_MAX) (fdiv binary32 (left d) g),
          right = fmul binary32 (int_to_fp binary32 INT16_MAX) (fdiv binary32 (right d) g)\<rparr>"
    by (rule exI [of _ "double_to_float (effective_gain ev d h w)"])
       (simp add: SetMixerVolume_def Let_def)
  show ?thesis
    using ex by (simp add: SetMixerVolume_def Let_def gain_calls_def same)
qed

subsection \<open>The dispatch of PlayMsg\<close>

lemma cls_uint: "uint (m :: 8 word) AND 240 = uint (m AND 0xF0)"
  by (simp add: uint_and)

lemma chan_uint: "uint (m :: 8 word) AND 15 = uint (m AND 0x0F)"
  by (simp add: uint_and)

lemma uint_eq_class:
  "(uint (x :: 8 word) = 128) = (x = 0x80)"
  "(uint (x :: 8 word) = 144) = (x = 0x90)"
  "(uint (x :: 8 word) = 160) = (x = 0xA0)"
  "(uint (x :: 8 word) = 176) = (x = 0xB0)"
  "(uint (x :: 8 word) = 192) = (x = 0xC0)"
  "(uint (x :: 8 word) = 208) = (x = 0xD0)"
  "(uint (x :: 8 word) = 224) = (x = 0xE0)"
  by (simp_all add: word_uint_eq_iff)

lemma push_bit_7: "push_bit 7 (k :: int) = k * 2 ^ 7"
  by (simp add: push_bit_eq_mult)

lemma PlayMsg_recognized:
  assumes "recognized_class (msg ! 0)"
    and "1 + spec_data_bytes (msg ! 0) \<le> length msg"
  shows "PlayMsg h msg w = Inr (w @ spec_dispatch (synth h) (msg ! 0) (msg ! 1) (msg ! 2))"
  using assms
  by (auto simp: PlayMsg_def recognized_class_def spec_dispatch_def spec_data_bytes_def
        read_msg_def ebind_def Let_def cls_uint chan_uint uint_eq_class push_bit_7)

lemma PlayMsg_unrecognized:
  assumes "8 \<le> length msg" and "\<not> recognized_class (msg ! 0)"
  shows "PlayMsg h msg w =
           Inr (w @ [LOG_MSG_PRIx64 ''MIDI: unknown MIDI command: %0'' (take 8 msg)])"
  using assms
  by (auto simp: PlayMsg_def recognized_class_def
        read_msg_def ebind_def Let_def cls_uint uint_eq_class)

lemma spec_dispatch_one:
  "recognized_class status \<Longrightarrow> length (spec_dispatch sy status d1 d2) = 1"
  by (auto simp: recognized_class_def spec_dispatch_def Let_def)

lemma spec_dispatch_engine: "list_all engine_call (spec_dispatch sy status d1 d2)"
  by (simp add: spec_dispatch_def Let_def)

text \<open>
  C4: a message whose status byte has a recognized class, in a buffer that holds the
  status byte and the data bytes of the class, makes \<open>PlayMsg\<close> succeed with exactly one
  call, an engine call: the operation that the specification's table gives for the
  class, on the channel \<open>status & 0x0F\<close> and with the data bytes as they are; the bend
  of a pitch bend is \<open>data1 + (data2 << 7)\<close>.
\<close>

theorem PlayMsg_dispatches_one_call:
  assumes "recognized_class (msg ! 0)"
    and "1 + spec_data_bytes (msg ! 0) \<le> length msg"
  shows "PlayMsg h msg w = Inr (w @ spec_dispatch (synth h) (msg ! 0) (msg ! 1) (msg ! 2))
       \<and> length (spec_dispatch (synth h) (msg ! 0) (msg ! 1) (msg ! 2)) = 1
       \<and> list_all engine_call (spec_dispatch (synth h) (msg ! 0) (msg ! 1) (msg ! 2))"
  using PlayMsg_recognized [OF assms] spec_dispatch_one [OF assms(1)] spec_dispatch_engine
  by simp

theorem PlayMsg_dispatches_one_call_witness:
  "recognized_class ([0xE0, 0x00, 0x40] ! 0)
   \<and> 1 + spec_data_bytes ([0xE0, 0x00, 0x40] ! 0) \<le> length [0xE0, 0x00, 0x40 :: 8 word]
   \<and> PlayMsg open_handler [0xE0, 0x00, 0x40] [] = Inr [Fluid_synth_pitch_bend (Some 2) 0 8192]"
  using PlayMsg_dispatches_one_call [of "[0xE0, 0x00, 0x40]" open_handler "[]"]
  by (simp add: recognized_class_def spec_data_bytes_def spec_dispatch_def open_handler_def)

text \<open>
  C5, as the specification has it, is about every message of an unrecognized class,
  the one-byte message \<open>0xF8\<close> among them. The default case copies eight bytes from
  \<open>msg\<close> whatever the message is (line 183): on the message \<open>0xF8\<close> in a buffer of its
  own, one byte long, the copy reads beyond the buffer and no log is made.
\<close>

theorem PlayMsg_unknown_short_buffer:
  "PlayMsg open_handler [0xF8] [] = Inl (OutOfBounds, [])"
  by (simp add: PlayMsg_def read_msg_def ebind_def Let_def)

text \<open>
  C5, amended: a message whose status byte has no recognized class, in a buffer of at
  least the eight bytes that the log copies, makes \<open>PlayMsg\<close> succeed with one call, the
  log of these bytes, and no engine call. A message of a recognized class that follows
  is dispatched as the table says, after the log: \<open>PlayMsg\<close> changes no member of the
  handler.
\<close>

theorem PlayMsg_unknown_logged:
  assumes "8 \<le> length msg" and "\<not> recognized_class (msg ! 0)"
  shows "PlayMsg h msg w =
           Inr (w @ [LOG_MSG_PRIx64 ''MIDI: unknown MIDI command: %0'' (take 8 msg)])
       \<and> filter engine_call
           (w @ [LOG_MSG_PRIx64 ''MIDI: unknown MIDI command: %0'' (take 8 msg)])
           = filter engine_call w
       \<and> (recognized_class (msg' ! 0) \<and> 1 + spec_data_bytes (msg' ! 0) \<le> length msg' \<longrightarrow>
          PlayMsg h msg' (w @ [LOG_MSG_PRIx64 ''MIDI: unknown MIDI command: %0'' (take 8 msg)])
            = Inr (w @ [LOG_MSG_PRIx64 ''MIDI: unknown MIDI command: %0'' (take 8 msg)]
                     @ spec_dispatch (synth h) (msg' ! 0) (msg' ! 1) (msg' ! 2)))"
  using PlayMsg_unrecognized [OF assms] PlayMsg_recognized [of msg']
  by simp

theorem PlayMsg_unknown_logged_witness:
  "8 \<le> length [0xF8, 0, 0, 0, 0, 0, 0, 0 :: 8 word]
   \<and> \<not> recognized_class ([0xF8, 0, 0, 0, 0, 0, 0, 0] ! 0)
   \<and> PlayMsg open_handler [0xF8, 0, 0, 0, 0, 0, 0, 0] [] =
       Inr [LOG_MSG_PRIx64 ''MIDI: unknown MIDI command: %0'' [0xF8, 0, 0, 0, 0, 0, 0, 0]]
   \<and> PlayMsg open_handler [0x90, 60, 100]
       [LOG_MSG_PRIx64 ''MIDI: unknown MIDI command: %0'' [0xF8, 0, 0, 0, 0, 0, 0, 0]] =
       Inr [LOG_MSG_PRIx64 ''MIDI: unknown MIDI command: %0'' [0xF8, 0, 0, 0, 0, 0, 0, 0],
            Fluid_synth_noteon (Some 2) 0 60 100]"
  using PlayMsg_unknown_logged
    [where msg = "[0xF8, 0, 0, 0, 0, 0, 0, 0]" and msg' = "[0x90, 60, 100]"
       and h = open_handler and w = "[]"]
  by (simp add: recognized_class_def spec_data_bytes_def spec_dispatch_def open_handler_def)

subsection \<open>Close and Open\<close>

text \<open>
  The members satisfy \<open>is_open = (channel \<noteq> nullptr)\<close> in a handler that has only
  been used through \<open>Open\<close> and \<open>Close\<close>: \<open>Close\<close> resets both and \<open>Open\<close> sets both
  or neither. In such a handler \<open>Close\<close> makes no call through a null pointer.
\<close>

text \<open>
  C8: \<open>Close\<close> on a handler that is not open returns at once: no member changes and no
  call is made. In every state, \<open>Close\<close> after \<open>Close\<close> does what one \<open>Close\<close> does (the
  second call finds the handler closed; when the first one fails, nothing follows it).
\<close>

theorem Close_idempotent:
  "(\<not> is_open h \<longrightarrow> Close h w = Inr (h, w))
   \<and> ebind (Close h w) (\<lambda>(h', w'). Close h' w') = Close h w"
  by (simp add: Close_def ebind_def split: option.split)

theorem Close_idempotent_witness:
  "\<not> is_open closed_handler
   \<and> Close closed_handler [] = Inr (closed_handler, [])
   \<and> Close open_handler [] =
       Inr (open_handler\<lparr>channel := None, synth := None, settings := None, is_open := False\<rparr>,
            [Enable 4 False, MIXER_DelChannel 4, Delete_fluid_synth 2, Delete_fluid_settings 1])
   \<and> ebind (Close open_handler []) (\<lambda>(h', w'). Close h' w') = Close open_handler []"
  using Close_idempotent [of closed_handler "[]"] Close_idempotent [of open_handler "[]"]
  by (simp add: closed_handler_def open_handler_def Close_def release_def)

lemma release_no_creation [simp]:
  "\<not> list_ex creation_failed (release Delete_fluid_synth p)"
  "\<not> list_ex creation_failed (release Delete_fluid_settings p)"
  "\<not> list_ex creation_failed (release MIXER_DelChannel p)"
  by (simp_all add: release_def split: option.split)

lemma load_soundfont_trace:
  "\<exists>w'. load_soundfont ev sy sf w = w @ w' \<and> \<not> list_ex creation_failed w'"
  by (simp add: load_soundfont_def Let_def)

lemma log_soundfonts_trace:
  "\<exists>w'. log_soundfonts ev sy w = w @ w' \<and> \<not> list_ex creation_failed w'"
  by (simp add: log_soundfonts_def Let_def)

lemma gain_calls_no_creation [simp]: "\<not> list_ex creation_failed (gain_calls ev v h w)"
  by (simp add: gain_calls_def)

lemma Open_register_trace:
  "\<exists>w'. snd (snd (Open_register ev c h w)) = w @ w' \<and> \<not> list_ex creation_failed w'"
  by (simp add: Open_register_def SetMixerVolume_def Let_def split: option.split)

lemma Open_register_opens:
  "fst (Open_register ev c h w) \<and> is_open (fst (snd (Open_register ev c h w)))
   \<and> channel (fst (snd (Open_register ev c h w))) = channel h"
  by (simp add: Open_register_def SetMixerVolume_def Let_def split: option.split)

lemma Open_finish_trace:
  "\<exists>w'. trace_of (Open_finish ev sec sr fs h w) = w @ w' \<and> \<not> list_ex creation_failed w'"
proof -
  define wa where "wa = w @ release Delete_fluid_synth (synth h)"
  define soundfont where "soundfont = section_Get_string ev wa sec ''soundfont''"
  define wb where "wb = wa @ [Get_string sec ''soundfont'' soundfont]"
  define resolved where "resolved = Cross_ResolveHomedir ev wb soundfont"
  define wc where "wc = wb @ [ResolveHomedir soundfont resolved]"
  define wd where "wd = load_soundfont ev fs resolved wc"
  define we where "we = log_soundfonts ev fs wd"
  define rate where "rate = nat (sr mod 2 ^ 32)"
  define mc where "mc = MIXER_AddChannel_ret ev we rate ''FSYNTH''"
  define wf where "wf = (we @ [MIXER_AddChannel rate ''FSYNTH'' mc])
     @ release MIXER_DelChannel (channel h)"
  have eq: "trace_of (Open_finish ev sec sr fs h w) =
      (case mc of
         None \<Rightarrow> wf
       | Some c \<Rightarrow> snd (snd (Open_register ev c (h\<lparr>synth := fs, channel := mc\<rparr>) wf)))"
    unfolding Open_finish_def Let_def wf_def mc_def rate_def we_def wd_def wc_def
      resolved_def wb_def soundfont_def wa_def trace_of_def
    by (simp split: option.split prod.split)
  obtain w1 where w1: "wd = wc @ w1" "\<not> list_ex creation_failed w1"
    using load_soundfont_trace [of ev fs resolved wc] by (auto simp: wd_def)
  obtain w2 where w2: "we = wd @ w2" "\<not> list_ex creation_failed w2"
    using log_soundfonts_trace [of ev fs wd] by (auto simp: we_def)
  obtain w3 where w3: "wf = w @ w3" "\<not> list_ex creation_failed w3"
    using w1 w2 by (simp add: wf_def wc_def wb_def wa_def)
  show ?thesis
  proof (cases mc)
    case None
    with w3 show ?thesis by (simp add: eq)
  next
    case (Some c)
    obtain w4 where "snd (snd (Open_register ev c (h\<lparr>synth := fs, channel := mc\<rparr>) wf)) = wf @ w4"
      "\<not> list_ex creation_failed w4"
      using Open_register_trace by blast
    with w3 Some show ?thesis by (simp add: eq)
  qed
qed

lemma release_no_enable [simp]:
  "\<not> list_ex enables_channel (release Delete_fluid_synth p)"
  "\<not> list_ex enables_channel (release Delete_fluid_settings p)"
  "\<not> list_ex enables_channel (release MIXER_DelChannel p)"
  by (simp_all add: release_def split: option.split)

lemma Open_configure_cases:
  "(\<exists>w'. Open_configure ev fs h w = Inr (False, h\<lparr>settings := fs\<rparr>, w @ w')
         \<and> \<not> list_ex enables_channel w')
   \<or> (\<exists>w'. trace_of (Open_configure ev fs h w) = w @ w' \<and> \<not> list_ex creation_failed w')"
proof -
  define sect where "sect = control_GetSection ev w ''fluidsynth''"
  define w1 where "w1 = w @ [GetSection ''fluidsynth'' sect]"
  show ?thesis
  proof (cases sect)
    case None
    then have "Open_configure ev fs h w = Inl (NullPointerDereference, w1)"
      unfolding Open_configure_def Let_def w1_def sect_def by simp
    then show ?thesis by (simp add: trace_of_def w1_def)
  next
    case (Some sec)
    define sample_rate where "sample_rate = section_Get_int ev w1 sec ''fluid_rate''"
    define w2 where "w2 = (w1 @ [Get_int sec ''fluid_rate'' sample_rate])
       @ [Fluid_settings_setnum fs ''synth.sample-rate'' (int_to_fp binary64 sample_rate)]"
    define cpu_cores where "cpu_cores = section_Get_int ev w2 sec ''synth_threads''"
    define w3 where "w3 = (((w2 @ [Get_int sec ''synth_threads'' cpu_cores])
       @ [Fluid_settings_setint fs ''synth.cpu-cores'' cpu_cores])
       @ [Fluid_settings_setstr fs ''audio.sample-format'' ''float''])
       @ release Delete_fluid_settings (settings h)"
    define fluid_synth where "fluid_synth = new_fluid_synth ev w3 fs"
    define w4 where "w4 = w3 @ [New_fluid_synth fs fluid_synth]"
    have eq: "Open_configure ev fs h w =
        (if fluid_synth = None then
           Inr (False, h\<lparr>settings := fs\<rparr>,
                w4 @ [LOG_MSG ''MIDI: Failed to create the FluidSynth synthesizer''])
         else Open_finish ev sec sample_rate fluid_synth (h\<lparr>settings := fs\<rparr>) w4)"
      using Some
      unfolding Open_configure_def Let_def w4_def fluid_synth_def w3_def cpu_cores_def
        w2_def sample_rate_def w1_def sect_def
      by simp
    have w4: "w4 = w @ (GetSection ''fluidsynth'' sect # Get_int sec ''fluid_rate'' sample_rate
        # Fluid_settings_setnum fs ''synth.sample-rate'' (int_to_fp binary64 sample_rate)
        # Get_int sec ''synth_threads'' cpu_cores
        # Fluid_settings_setint fs ''synth.cpu-cores'' cpu_cores
        # Fluid_settings_setstr fs ''audio.sample-format'' ''float''
        # release Delete_fluid_settings (settings h) @ [New_fluid_synth fs fluid_synth])"
      by (simp add: w4_def w3_def w2_def w1_def)
    show ?thesis
    proof (cases "fluid_synth = None")
      case True
      then show ?thesis
        by (subst eq, subst w4) simp
    next
      case False
      obtain w' where w': "trace_of (Open_finish ev sec sample_rate fluid_synth
            (h\<lparr>settings := fs\<rparr>) w4) = w4 @ w'"
        "\<not> list_ex creation_failed w'"
        using Open_finish_trace by blast
      from False obtain p where p: "fluid_synth = Some p" by auto
      have "\<exists>w''. w4 @ w' = w @ w'' \<and> \<not> list_ex creation_failed w''"
        using w'(2) by (subst w4) (simp add: p)
      moreover have "Open_configure ev fs h w =
          Open_finish ev sec sample_rate fluid_synth (h\<lparr>settings := fs\<rparr>) w4"
        using False by (simp only: eq if_False)
      ultimately show ?thesis
        using w'(1) by simp
    qed
  qed
qed

lemma Close_closed:
  assumes "is_open h = (channel h \<noteq> None)"
  shows "\<exists>h0 c0. Close h w = Inr (h0, w @ c0) \<and> \<not> is_open h0 \<and> channel h0 = None
           \<and> \<not> list_ex creation_failed c0 \<and> \<not> list_ex enables_channel c0"
  using assms by (auto simp: Close_def split: option.split)

text \<open>
  C7: take a run of \<open>Open\<close> on a handler with \<open>is_open = (channel \<noteq> nullptr)\<close>. If
  \<open>new_fluid_settings\<close> or \<open>new_fluid_synth\<close> returned null in this run, then \<open>Open\<close>
  returns false, the handler is not open and has no mixer channel, and the run has
  enabled no channel.
\<close>

theorem Open_failure_stays_closed:
  assumes inv: "is_open h = (channel h \<noteq> None)"
    and failed: "list_ex creation_failed (drop (length w) (trace_of (Open ev h w)))"
  shows "\<exists>h' w'. Open ev h w = Inr (False, h', w @ w') \<and> \<not> is_open h' \<and> channel h' = None
           \<and> \<not> list_ex enables_channel w'"
proof -
  obtain h0 c0 where cl: "Close h w = Inr (h0, w @ c0)" and h0: "\<not> is_open h0" "channel h0 = None"
    and c0: "\<not> list_ex creation_failed c0" "\<not> list_ex enables_channel c0"
    using Close_closed [OF inv] by blast
  define fs where "fs = new_fluid_settings ev (w @ c0)"
  define w1 where "w1 = (w @ c0) @ [New_fluid_settings fs]"
  have eq: "Open ev h w =
      (if fs = None then Inr (False, h0, w1 @ [LOG_MSG ''MIDI: new_fluid_settings failed''])
       else Open_configure ev fs h0 w1)"
    unfolding Open_def Let_def cl ebind_def w1_def fs_def by simp
  show ?thesis
  proof (cases "fs = None")
    case True
    then show ?thesis
      using h0 c0 by (simp add: eq w1_def)
  next
    case False
    then obtain p where p: "fs = Some p" by auto
    from Open_configure_cases [of ev fs h0 w1] show ?thesis
    proof
      assume "\<exists>w'. Open_configure ev fs h0 w1 = Inr (False, h0\<lparr>settings := fs\<rparr>, w1 @ w')
         \<and> \<not> list_ex enables_channel w'"
      moreover have "Open ev h w = Open_configure ev fs h0 w1"
        using False by (simp only: eq if_False)
      ultimately show ?thesis
        using h0 c0 by (auto simp: w1_def)
    next
      assume "\<exists>w'. trace_of (Open_configure ev fs h0 w1) = w1 @ w'
         \<and> \<not> list_ex creation_failed w'"
      moreover have "Open ev h w = Open_configure ev fs h0 w1"
        using False by (simp only: eq if_False)
      ultimately obtain w' where "trace_of (Open ev h w) = w1 @ w'"
        "\<not> list_ex creation_failed w'"
        by auto
      with failed c0 have False
        by (simp add: w1_def p)
      then show ?thesis ..
    qed
  qed
qed

theorem Open_failure_stays_closed_witness:
  "is_open open_handler = (channel open_handler \<noteq> None)
   \<and> list_ex creation_failed (drop (length ([] :: call list))
        (trace_of (Open (sample_env\<lparr>new_fluid_settings := \<lambda>w. None\<rparr>) open_handler [])))
   \<and> (\<exists>h'. Open (sample_env\<lparr>new_fluid_settings := \<lambda>w. None\<rparr>) open_handler [] =
         Inr (False, h',
              [Enable 4 False, MIXER_DelChannel 4, Delete_fluid_synth 2, Delete_fluid_settings 1,
               New_fluid_settings None, LOG_MSG ''MIDI: new_fluid_settings failed''])
         \<and> \<not> is_open h' \<and> channel h' = None)
   \<and> is_open closed_handler = (channel closed_handler \<noteq> None)
   \<and> list_ex creation_failed (drop (length ([] :: call list))
        (trace_of (Open (sample_env\<lparr>new_fluid_synth := \<lambda>w s. None\<rparr>) closed_handler [])))
   \<and> (\<exists>h' w'. Open (sample_env\<lparr>new_fluid_synth := \<lambda>w s. None\<rparr>) closed_handler [] =
         Inr (False, h', w')
         \<and> \<not> is_open h' \<and> channel h' = None \<and> \<not> list_ex enables_channel w')"
  using Open_failure_stays_closed
    [of open_handler "[]" "sample_env\<lparr>new_fluid_settings := \<lambda>w. None\<rparr>"]
    Open_failure_stays_closed
    [of closed_handler "[]" "sample_env\<lparr>new_fluid_synth := \<lambda>w s. None\<rparr>"]
  by (simp add: Open_def Open_configure_def Close_def ebind_def release_def Let_def
        sample_env_def open_handler_def closed_handler_def trace_of_def)

text \<open>\<open>Open\<close> keeps the relation between the flag and the channel, and returns the flag.\<close>

lemma Open_finish_opens:
  "Open_finish ev sec sr fs h w = Inr (ok, h', w') \<Longrightarrow> ok \<and> is_open h' \<and> channel h' \<noteq> None"
  unfolding Open_finish_def Let_def
  by (auto split: option.splits dest!: arg_cong [where f = "\<lambda>r. (fst r, fst (snd r))"]
        simp: Open_register_opens)

lemma Open_configure_opens:
  assumes "Open_configure ev fs h w = Inr (ok, h', w')"
  shows "(ok \<and> is_open h' \<and> channel h' \<noteq> None)
       \<or> (\<not> ok \<and> is_open h' = is_open h \<and> channel h' = channel h)"
  using assms unfolding Open_configure_def Let_def
  by (auto split: option.splits if_splits dest: Open_finish_opens)

lemma Open_keeps_invariant:
  assumes "is_open h = (channel h \<noteq> None)" and "Open ev h w = Inr (ok, h', w')"
  shows "is_open h' = ok \<and> (channel h' \<noteq> None) = ok"
proof -
  obtain h0 c0 where cl: "Close h w = Inr (h0, w @ c0)" and h0: "\<not> is_open h0" "channel h0 = None"
    using Close_closed [OF assms(1)] by blast
  show ?thesis
    using assms(2) h0 unfolding Open_def Let_def cl ebind_def
    by (auto split: if_splits dest: Open_configure_opens)
qed

text \<open>Two runs of \<open>Open\<close> on a closed handler: the synthesizer is not created, and all goes
  well.\<close>

lemma Open_synth_failure_example:
  "Open (sample_env\<lparr>new_fluid_synth := \<lambda>w s. None\<rparr>) closed_handler [] =
     Inr (False, closed_handler\<lparr>settings := Some 1\<rparr>,
          [New_fluid_settings (Some 1), GetSection ''fluidsynth'' (Some 3),
           Get_int 3 ''fluid_rate'' 44100,
           Fluid_settings_setnum (Some 1) ''synth.sample-rate'' (int_to_fp binary64 44100),
           Get_int 3 ''synth_threads'' 1,
           Fluid_settings_setint (Some 1) ''synth.cpu-cores'' 1,
           Fluid_settings_setstr (Some 1) ''audio.sample-format'' ''float'',
           New_fluid_synth (Some 1) None,
           LOG_MSG ''MIDI: Failed to create the FluidSynth synthesizer''])"
  by (simp add: Open_def Open_configure_def Close_def ebind_def release_def Let_def
        sample_env_def closed_handler_def)

lemma unit_volume_arith:
  "int_to_fp binary64 44100 = Num False 44100"
  "round_mag binary32 False 1 = Num False 1"
  "round_mag binary32 False 32767 = Num False 32767"
  by code_simp+

lemma Open_success_example:
  "Open sample_env closed_handler [] =
     Inr (True, closed_handler\<lparr>settings := Some 1, synth := Some 2, channel := Some 4,
            is_open := True,
            prescale_volume := \<lparr>left = Num False 32767, right = Num False 32767\<rparr>\<rparr>,
          [New_fluid_settings (Some 1), GetSection ''fluidsynth'' (Some 3),
           Get_int 3 ''fluid_rate'' 44100,
           Fluid_settings_setnum (Some 1) ''synth.sample-rate'' (Num False 44100),
           Get_int 3 ''synth_threads'' 1,
           Fluid_settings_setint (Some 1) ''synth.cpu-cores'' 1,
           Fluid_settings_setstr (Some 1) ''audio.sample-format'' ''float'',
           New_fluid_synth (Some 1) (Some 2),
           Get_string 3 ''soundfont'' [], ResolveHomedir [] [],
           MIXER_AddChannel 44100 ''FSYNTH'' (Some 4),
           RegisterVolCallBack 4,
           Fluid_settings_setnum (Some 1) ''synth.gain'' (Num False 1),
           Fluid_settings_getnum (Some 1) ''synth.gain'' (Some (Num False 1)),
           Enable 4 True])"
  by (simp add: Open_def Open_configure_def Open_finish_def Open_register_def
        SetMixerVolume_def gain_calls_def effective_gain_def gain_readback_def
        requested_gain_def std_min_def float_to_double_def signed_def
        load_soundfont_def log_soundfonts_def Close_def ebind_def release_def Let_def
        sample_env_def closed_handler_def int16_max_float unit_volume_arith)

subsection \<open>The render loop of MixerCallBack\<close>






lemma len_facts:
  fixes frames m :: "16 word"
  assumes "0 < frames" and "0 < m"
  shows "0 < unat (min frames m)"
    and "unat (min frames m) = min (unat frames) (unat m)"
    and "unat (frames - min frames m) = unat frames - unat (min frames m)"
    and "unat (frames - min frames m) < unat frames"
proof -
  have "0 < min frames m"
    using assms by simp
  then show p: "0 < unat (min frames m)"
    by (simp only: word_less_nat_alt unat_0)
  show "unat (min frames m) = min (unat frames) (unat m)"
    by (simp add: min_def word_le_nat_alt)
  have le: "min frames m \<le> frames" by simp
  show s: "unat (frames - min frames m) = unat frames - unat (min frames m)"
    using le by (rule unat_sub)
  have "unat (min frames m) \<le> unat frames"
    using le by (simp add: word_le_nat_alt)
  with p s show "unat (frames - min frames m) < unat frames" by linarith
qed

lemma loop_returns:
  assumes "0 < expected_max_frames ev"
  shows "\<exists>r. MixerCallBack_loop ev h frames acc scaled w = Some r"
proof (induction "unat frames" arbitrary: frames acc scaled w rule: less_induct)
  case less
  show ?case
  proof (cases "0 < frames")
    case False
    then show ?thesis by (subst MixerCallBack_loop.simps) simp
  next
    case True
    note dec = len_facts(4) [OF True assms]
    show ?thesis
      using less [OF dec]
      by (subst MixerCallBack_loop.simps) (simp add: Let_def True split: option.split)
  qed
qed


lemma chained_round: "chained (a # b # c # cs) = (round_ok a b c \<and> chained cs)"
  by simp






text \<open>A run of five frames with a maximum of two, on the stream 0, 1, 2, ...: three
  blocks, and the ten samples of the five frames in their order.\<close>

lemma MixerCallBack_example:
  "\<exists>w'. MixerCallBack counting_env open_handler 5 [] = Some (Inr w')
     \<and> delivered w' = [2, 2, 1]
     \<and> delivered_samples w' = [0, 1, 2, 3, 4, 5, 6, 7, 8, 9]"
  by (simp add: MixerCallBack_def MixerCallBack_loop.simps counting_env_def sample_env_def
        open_handler_def Let_def overwrite_def upt_rec)

text \<open>
  C9: with a maximum of at least one frame, \<open>MixerCallBack\<close> returns for every frame
  count and every handler; as long as frames remain, the chunk is at least one frame
  and the frames that remain after it are fewer.
\<close>

theorem MixerCallBack_terminates:
  assumes "0 < expected_max_frames ev"
  shows "(\<exists>r. MixerCallBack ev h frames w = Some r)
       \<and> (0 < frames \<longrightarrow>
            0 < min frames (expected_max_frames ev)
            \<and> frames - min frames (expected_max_frames ev) < frames)"
proof -
  have "0 < frames \<Longrightarrow> frames - min frames (expected_max_frames ev) < frames"
    using len_facts(4) [OF _ assms, of frames] by (simp add: word_less_nat_alt)
  then show ?thesis
    using loop_returns [OF assms] assms by (simp add: MixerCallBack_def Let_def)
qed

theorem MixerCallBack_terminates_witness:
  "0 < expected_max_frames sample_env
   \<and> (\<exists>r. MixerCallBack sample_env open_handler 593 [] = Some r)
   \<and> (0 :: 16 word) < 593
   \<and> 0 < min 593 (expected_max_frames sample_env)
   \<and> 593 - min 593 (expected_max_frames sample_env) < 593"
  using MixerCallBack_terminates [of sample_env open_handler 593 "[]"]
  by (simp add: sample_env_def)

text \<open>With a maximum of zero the loop of a handler with a channel never ends.\<close>

lemma loop_diverges_aux:
  assumes "MixerCallBack_loop ev h frames acc scaled w = Some y"
  shows "\<not> (expected_max_frames ev = 0 \<and> channel h \<noteq> None \<and> 0 < frames)"
proof (rule MixerCallBack_loop.raw_induct
    [where P = "\<lambda>ev h frames acc scaled w y.
       \<not> (expected_max_frames ev = 0 \<and> channel h \<noteq> None \<and> 0 < frames)", OF _ assms])
  fix loop ev h frames accumulator scaled w y
  assume ih: "\<And>ev h frames accumulator scaled w y.
      loop ev h frames accumulator scaled w = Some y \<Longrightarrow>
      \<not> (expected_max_frames ev = 0 \<and> channel h \<noteq> None \<and> 0 < frames)"
    and body: "(if 0 < frames then
        (let max_frames = expected_max_frames ev;
             len = min frames max_frames;
             n = unat len
         in if length accumulator < 2 * n \<or> length scaled < 2 * n then
              Some (Inl (OutOfBounds, w))
            else
              (let written = take (2 * n) (fluid_synth_write_float ev w (synth h) n);
                   w = w @ [Fluid_synth_write_float (synth h) n written];
                   accumulator = overwrite written accumulator;
                   limited = take (2 * n) (soft_limiter_Apply ev w accumulator n);
                   w = w @ [Soft_limiter_Apply accumulator n limited];
                   scaled = overwrite limited scaled
               in case channel h of
                    None \<Rightarrow> Some (Inl (NullPointerDereference, w))
                  | Some c \<Rightarrow>
                      loop ev h (frames - len) accumulator scaled
                        (w @ [AddSamples_s16 c n (take (2 * n) scaled)])))
      else Some (Inr w)) = Some y"
  show "\<not> (expected_max_frames ev = 0 \<and> channel h \<noteq> None \<and> 0 < frames)"
  proof
    assume a: "expected_max_frames ev = 0 \<and> channel h \<noteq> None \<and> 0 < frames"
    then obtain c where c: "channel h = Some c" by auto
    from body a c have "\<exists>a s v. loop ev h frames a s v = Some y"
      by (auto simp: Let_def)
    with ih a show False by blast
  qed
qed

lemma loop_diverges:
  assumes "expected_max_frames ev = 0" and "channel h \<noteq> None" and "0 < frames"
  shows "MixerCallBack_loop ev h frames acc scaled w = None"
  using loop_diverges_aux [of ev h frames acc scaled w] assms
  by (cases "MixerCallBack_loop ev h frames acc scaled w") auto

end
